theory Spec2Isabelle
  imports Complex_Main
begin

section \<open>The time tracker: data model\<close>

text \<open>
  The embedding follows \<^verbatim>\<open>src/app/page.tsx\<close> (the component \<^verbatim>\<open>Home\<close> and its helpers) and
  \<^verbatim>\<open>src/lib/api.ts\<close> (the webhook wrappers).

  Representation of the JavaScript values:
  \<^item> an ISO-8601 instant (\<^verbatim>\<open>toISOString()\<close>, \<^verbatim>\<open>clock_in_time\<close>) is the number that
    \<^verbatim>\<open>new Date(s).getTime()\<close> gives for it: milliseconds since the epoch, an \<open>int\<close>;
  \<^item> a calendar day \<^verbatim>\<open>YYYY-MM-DD\<close> (\<^verbatim>\<open>entry.date\<close>, \<^verbatim>\<open>formatDate\<close>) is its day number,
    the days since 1970-01-01, so that \<^verbatim>\<open>new Date(entry.date).getTime()\<close> (a date-only string
    is read as UTC midnight) is the day number times 86400000;
  \<^item> a \<^verbatim>\<open>number\<close> holding hours is a \<open>rat\<close>: quarter hours and the quotients of
    millisecond differences used here are computed exactly, IEEE rounding and \<^verbatim>\<open>NaN\<close> are
    not modelled;
  \<^item> \<^verbatim>\<open>T | null\<close> and an optional field \<^verbatim>\<open>f?: T\<close> are \<open>T option\<close>;
  \<^item> the local time zone is a fixed offset \<open>tz\<close> in minutes east of UTC (what
    \<^verbatim>\<open>-getTimezoneOffset()\<close> returns), constant over the week looked at.
\<close>

type_synonym instant = int
type_synonym isodate = int

record ClockState =
  isClockedIn :: bool
  clockInTime :: "instant option"

record TimeEntry =
  shiftId :: string
  date :: isodate
  clockIn :: instant
  clockOut :: "instant option"
  hoursWorked :: "rat option"

record MileageEntry =
  entryId :: string
  mdate :: isodate
  miles :: "rat option"
  description :: string

text \<open>The invariant of the clock session: the clock-in time is there exactly when clocked in.\<close>

definition ClockState_inv :: "ClockState \<Rightarrow> bool" where
  "ClockState_inv cs = ((clockInTime cs \<noteq> None) = isClockedIn cs)"

section \<open>Helper functions of page.tsx\<close>

definition ms_per_hour :: int where
  "ms_per_hour = 1000 * 60 * 60"

definition ms_per_day :: int where
  "ms_per_day = 86400000"

text \<open>\<^verbatim>\<open>Math.round\<close>: the nearest integer, a tie going up.\<close>

definition Math_round :: "rat \<Rightarrow> int" where
  "Math_round x = \<lfloor>x + 1 / 2\<rfloor>"

text \<open>\<^verbatim>\<open>formatDate(d) = d.toISOString().split("T")[0]\<close>: the UTC calendar day of the instant.\<close>

definition formatDate :: "instant \<Rightarrow> isodate" where
  "formatDate t = t div ms_per_day"

text \<open>
  \<^verbatim>\<open>calculateHoursWorked\<close>:
  \<^verbatim>\<open>diffHours = (end.getTime() - start.getTime()) / (1000 * 60 * 60);
  return Math.round(diffHours * 4) / 4\<close>.
\<close>

definition calculateHoursWorked :: "instant \<Rightarrow> instant \<Rightarrow> rat" where
  "calculateHoursWorked clockIn' clockOut' =
     (let diffHours = of_int (clockOut' - clockIn') / of_int ms_per_hour
      in of_int (Math_round (diffHours * 4)) / 4)"

text \<open>
  The local calendar of \<^verbatim>\<open>Date\<close>: \<^verbatim>\<open>getDay()\<close> is the local weekday (0 is Sunday;
  1970-01-01 was a Thursday), and
  \<^verbatim>\<open>startOfWeek.setDate(now.getDate() - now.getDay()); startOfWeek.setHours(0, 0, 0, 0)\<close>
  is local midnight of the Sunday on or before the local day of \<open>now\<close>.
\<close>

definition localDay :: "int \<Rightarrow> instant \<Rightarrow> int" where
  "localDay tz now = (now + tz * 60000) div ms_per_day"

definition getDay :: "int \<Rightarrow> instant \<Rightarrow> int" where
  "getDay tz now = (localDay tz now + 4) mod 7"

definition startOfWeek :: "int \<Rightarrow> instant \<Rightarrow> instant" where
  "startOfWeek tz now = (localDay tz now - getDay tz now) * ms_per_day - tz * 60000"

text \<open>\<^verbatim>\<open>new Date(entry.date).getTime()\<close> for a date-only string: UTC midnight of that day.\<close>

definition dateTime :: "isodate \<Rightarrow> instant" where
  "dateTime d = d * ms_per_day"

text \<open>
  \<^verbatim>\<open>getWeekTotal\<close>: the filter
  \<^verbatim>\<open>entryDate >= startOfWeek && entry.hoursWorked !== null\<close> and the reduce
  \<^verbatim>\<open>sum + (entry.hoursWorked || 0)\<close> from 0.
\<close>

definition inWeekFilter :: "int \<Rightarrow> instant \<Rightarrow> TimeEntry \<Rightarrow> bool" where
  "inWeekFilter tz now entry =
     (dateTime (date entry) \<ge> startOfWeek tz now \<and> hoursWorked entry \<noteq> None)"

definition hoursOrZero :: "rat option \<Rightarrow> rat" where
  "hoursOrZero h = (case h of None \<Rightarrow> 0 | Some x \<Rightarrow> x)"

definition getWeekTotal :: "int \<Rightarrow> instant \<Rightarrow> TimeEntry list \<Rightarrow> rat" where
  "getWeekTotal tz now entries =
     foldl (\<lambda>sum entry. sum + hoursOrZero (hoursWorked entry)) 0
       (filter (inWeekFilter tz now) entries)"

section \<open>Text of dates and numbers\<close>

text \<open>
  Identifiers are built by template strings: \<^verbatim>\<open>`${formatDate(now)}_${currentUser}`\<close> and
  \<^verbatim>\<open>`mileage_${Date.now()}`\<close>. \<open>decimal\<close> is the decimal text of a number and
  \<open>dateText\<close> the text \<^verbatim>\<open>YYYY-MM-DD\<close> of a day number (proleptic Gregorian calendar, years
  0000 to 9999).
\<close>

definition digitChar :: "nat \<Rightarrow> char" where
  "digitChar d = ''0123456789'' ! (d mod 10)"

fun decimal :: "nat \<Rightarrow> string" where
  "decimal n = (if n < 10 then [digitChar n] else decimal (n div 10) @ [digitChar (n mod 10)])"

declare decimal.simps [simp del]

definition decimalInt :: "int \<Rightarrow> string" where
  "decimalInt i = (if i < 0 then CHR ''-'' # decimal (nat (- i)) else decimal (nat i))"

definition padStart :: "nat \<Rightarrow> string \<Rightarrow> string" where
  "padStart n s = replicate (n - length s) CHR ''0'' @ s"

definition civilFromDays :: "isodate \<Rightarrow> int \<times> int \<times> int" where
  "civilFromDays z0 =
     (let z = z0 + 719468;
          era = z div 146097;
          doe = z - era * 146097;
          yoe = (doe - doe div 1460 + doe div 36524 - doe div 146096) div 365;
          doy = doe - (365 * yoe + yoe div 4 - yoe div 100);
          mp = (5 * doy + 2) div 153;
          d = doy - (153 * mp + 2) div 5 + 1;
          m = (if mp < 10 then mp + 3 else mp - 9);
          y = yoe + era * 400 + (if m \<le> 2 then 1 else 0)
      in (y, m, d))"

definition dateText :: "isodate \<Rightarrow> string" where
  "dateText z =
     (case civilFromDays z of (y, m, d) \<Rightarrow>
        padStart 4 (decimal (nat y)) @ ''-'' @ padStart 2 (decimal (nat m)) @ ''-''
          @ padStart 2 (decimal (nat d)))"

section \<open>The webhook wrappers of api.ts\<close>

text \<open>
  The response types. \<^verbatim>\<open>ClockResponse\<close> and \<^verbatim>\<open>MileageResponse\<close> extend the common shape
  \<^verbatim>\<open>{ success: boolean; error?: string }\<close> (the return type of \<^verbatim>\<open>editEntry\<close>). A missing
  \<^verbatim>\<open>success\<close> in a decoded body is falsy: \<open>False\<close>.
\<close>

record ApiResult =
  success :: bool
  error :: "string option"

record ClockResponse = ApiResult +
  shift_id :: "string option"
  hours_worked :: "rat option"

record MileageResponse = ApiResult +
  entry_id :: "string option"

record StatusResponse =
  clocked_in :: bool
  clock_in_time :: "instant option"
  elapsed_minutes :: "rat option"

record APITimeEntry =
  te_shift_id :: string
  te_date :: isodate
  clock_in :: instant
  clock_out :: "instant option"
  te_hours_worked :: "rat option"
  edited :: bool

record APIMileageEntry =
  me_entry_id :: string
  me_date :: isodate
  me_miles :: "rat option"
  me_description :: string

record HistoryResponse =
  time_entries :: "APITimeEntry list"
  mileage_entries :: "APIMileageEntry list"
  week_total_hours :: rat

text \<open>
  What \<^verbatim>\<open>fetch\<close> gives a wrapper: a rejected promise, or a response with a status and a
  body text. The body text is one of: the literal \<^verbatim>\<open>Accepted\<close>, the empty text, a text that
  \<^verbatim>\<open>JSON.parse\<close> decodes (to the value carried), any other text (\<^verbatim>\<open>JSON.parse\<close> throws; it
  throws on the first two as well).
\<close>

datatype 'r body = Accepted | Empty | Json 'r | NotJson

datatype 'r fetched = NetworkFailure | Response nat "'r body"

definition ok :: "nat \<Rightarrow> bool" where
  "ok status = (200 \<le> status \<and> status \<le> 299)"

definition connectFailed :: string where
  "connectFailed = ''Failed to connect. Please try again.''"

text \<open>
  The four POST wrappers have one shape: \<^verbatim>\<open>!response.ok\<close> throws into the \<^verbatim>\<open>catch\<close>, which
  returns the failure object; \<^verbatim>\<open>text === "Accepted" || text === "" || response.status === 200\<close>
  returns the wrapper's own success object; otherwise \<^verbatim>\<open>JSON.parse(text)\<close> is returned as it
  is, or \<^verbatim>\<open>{ success: true }\<close> when it throws. \<open>today\<close> is the \<^verbatim>\<open>new Date()\<close> taken in the
  wrapper.
\<close>

definition clockIn_call :: "string \<Rightarrow> instant \<Rightarrow> ClockResponse fetched \<Rightarrow> ClockResponse" where
  "clockIn_call techName today r =
     (case r of
        NetworkFailure \<Rightarrow>
          \<lparr>success = False, error = Some connectFailed, shift_id = None, hours_worked = None\<rparr>
      | Response status text \<Rightarrow>
          if \<not> ok status then
            \<lparr>success = False, error = Some connectFailed, shift_id = None, hours_worked = None\<rparr>
          else if text = Accepted \<or> text = Empty \<or> status = 200 then
            \<lparr>success = True, error = None,
             shift_id = Some (dateText (formatDate today) @ ''_'' @ techName),
             hours_worked = None\<rparr>
          else (case text of
                  Json parsed \<Rightarrow> parsed
                | _ \<Rightarrow> \<lparr>success = True, error = None, shift_id = None, hours_worked = None\<rparr>))"

definition clockOut_call :: "string \<Rightarrow> ClockResponse fetched \<Rightarrow> ClockResponse" where
  "clockOut_call techName r =
     (case r of
        NetworkFailure \<Rightarrow>
          \<lparr>success = False, error = Some connectFailed, shift_id = None, hours_worked = None\<rparr>
      | Response status text \<Rightarrow>
          if \<not> ok status then
            \<lparr>success = False, error = Some connectFailed, shift_id = None, hours_worked = None\<rparr>
          else if text = Accepted \<or> text = Empty \<or> status = 200 then
            \<lparr>success = True, error = None, shift_id = None, hours_worked = None\<rparr>
          else (case text of
                  Json parsed \<Rightarrow> parsed
                | _ \<Rightarrow> \<lparr>success = True, error = None, shift_id = None, hours_worked = None\<rparr>))"

definition submitMileage :: "string \<Rightarrow> instant \<Rightarrow> MileageResponse fetched \<Rightarrow> MileageResponse" where
  "submitMileage techName today r =
     (case r of
        NetworkFailure \<Rightarrow> \<lparr>success = False, error = Some connectFailed, entry_id = None\<rparr>
      | Response status text \<Rightarrow>
          if \<not> ok status then \<lparr>success = False, error = Some connectFailed, entry_id = None\<rparr>
          else if text = Accepted \<or> text = Empty \<or> status = 200 then
            \<lparr>success = True, error = None, entry_id = Some (''mileage_'' @ decimalInt today)\<rparr>
          else (case text of
                  Json parsed \<Rightarrow> parsed
                | _ \<Rightarrow> \<lparr>success = True, error = None, entry_id = None\<rparr>))"

definition editEntry :: "string \<Rightarrow> ApiResult fetched \<Rightarrow> ApiResult" where
  "editEntry techName r =
     (case r of
        NetworkFailure \<Rightarrow> \<lparr>success = False, error = Some connectFailed\<rparr>
      | Response status text \<Rightarrow>
          if \<not> ok status then \<lparr>success = False, error = Some connectFailed\<rparr>
          else if text = Accepted \<or> text = Empty \<or> status = 200 then
            \<lparr>success = True, error = None\<rparr>
          else (case text of
                  Json parsed \<Rightarrow> parsed
                | _ \<Rightarrow> \<lparr>success = True, error = None\<rparr>))"

section \<open>The state of the component Home\<close>

text \<open>
  The \<^verbatim>\<open>useState\<close> cells the clock, ledger and mileage logic reads and writes. The
  confirmation toast is kept as a value (the source formats it into a sentence), the error
  toast as its text. \<open>timers\<close> holds the callbacks scheduled by \<^verbatim>\<open>setTimeout\<close> and not yet
  run. The form fields of the mileage screen are arguments of the submit handler; the
  screen shown, the elapsed-time text and the loading flags are display state and are left
  out.
\<close>

datatype confirmation = ClockedInAt instant | ClockedOutWorked rat | MileageSaved

datatype timer = HideConfirmation | HideError | EnableButton

record AppState =
  currentUser :: "string option"
  clockState :: ClockState
  timeEntries :: "TimeEntry list"
  mileageEntries :: "MileageEntry list"
  weekTotalHours :: rat
  showConfirmation :: "confirmation option"
  showError :: "string option"
  isButtonDisabled :: bool
  isSubmittingMileage :: bool
  timers :: "timer list"

definition initialState :: AppState where
  "initialState =
     \<lparr>currentUser = None,
      clockState = \<lparr>isClockedIn = False, clockInTime = None\<rparr>,
      timeEntries = [], mileageEntries = [], weekTotalHours = 0,
      showConfirmation = None, showError = None,
      isButtonDisabled = False, isSubmittingMileage = False, timers = []\<rparr>"

text \<open>\<^verbatim>\<open>a || b\<close> on an optional text: the empty text is falsy as well.\<close>

definition orElse :: "string option \<Rightarrow> string \<Rightarrow> string" where
  "orElse a b = (case a of None \<Rightarrow> b | Some x \<Rightarrow> if x = [] then b else x)"

text \<open>\<^verbatim>\<open>selectUser\<close> and \<^verbatim>\<open>switchUser\<close>.\<close>

definition selectUser :: "string \<Rightarrow> AppState \<Rightarrow> AppState" where
  "selectUser name s = s\<lparr>currentUser := Some name\<rparr>"

definition switchUser :: "AppState \<Rightarrow> AppState" where
  "switchUser s =
     s\<lparr>currentUser := None,
       clockState := \<lparr>isClockedIn = False, clockInTime = None\<rparr>,
       timeEntries := [], mileageEntries := [], weekTotalHours := 0\<rparr>"

text \<open>
  \<^verbatim>\<open>loadUserData\<close>, the part after \<^verbatim>\<open>checkStatus\<close> has returned:
  \<^verbatim>\<open>if (status.clocked_in && status.clock_in_time)\<close>. A \<^verbatim>\<open>clock_in_time\<close> that is missing (or
  the empty text, falsy too) is \<open>None\<close>.
\<close>

definition applyStatus :: "StatusResponse \<Rightarrow> AppState \<Rightarrow> AppState" where
  "applyStatus status s =
     (case (clocked_in status, clock_in_time status) of
        (True, Some t) \<Rightarrow> s\<lparr>clockState := \<lparr>isClockedIn = True, clockInTime = Some t\<rparr>\<rparr>
      | _ \<Rightarrow> s\<lparr>clockState := \<lparr>isClockedIn = False, clockInTime = None\<rparr>\<rparr>)"

text \<open>
  \<^verbatim>\<open>loadUserData\<close> and \<^verbatim>\<open>refreshHistory\<close>, the part after \<^verbatim>\<open>fetchHistory\<close> has returned:
  the server's entries and week total replace the local ones.
\<close>

definition toLocalTimeEntry :: "APITimeEntry \<Rightarrow> TimeEntry" where
  "toLocalTimeEntry entry =
     \<lparr>shiftId = te_shift_id entry, date = te_date entry, clockIn = clock_in entry,
      clockOut = clock_out entry, hoursWorked = te_hours_worked entry\<rparr>"

definition toLocalMileageEntry :: "APIMileageEntry \<Rightarrow> MileageEntry" where
  "toLocalMileageEntry entry =
     \<lparr>entryId = me_entry_id entry, mdate = me_date entry, miles = me_miles entry,
      description = me_description entry\<rparr>"

definition applyHistory :: "HistoryResponse \<Rightarrow> AppState \<Rightarrow> AppState" where
  "applyHistory history s =
     s\<lparr>timeEntries := map toLocalTimeEntry (time_entries history),
       mileageEntries := map toLocalMileageEntry (mileage_entries history),
       weekTotalHours := week_total_hours history\<rparr>"

text \<open>
  The week total shown on the home screen:
  \<^verbatim>\<open>const weekTotal = weekTotalHours || getWeekTotal(timeEntries)\<close>; the number 0 is falsy.
\<close>

definition weekTotal :: "int \<Rightarrow> instant \<Rightarrow> AppState \<Rightarrow> rat" where
  "weekTotal tz now s =
     (if weekTotalHours s \<noteq> 0 then weekTotalHours s else getWeekTotal tz now (timeEntries s))"

section \<open>The clock handlers\<close>

text \<open>
  Each handler is \<^verbatim>\<open>async\<close>: it runs up to its \<^verbatim>\<open>await\<close>, and the rest runs when the
  wrapper's promise resolves. The part before the \<^verbatim>\<open>await\<close> is \<open>_begin\<close> (\<open>None\<close> when the
  guard \<^verbatim>\<open>if (isButtonDisabled || !currentUser) return\<close> leaves at once), the part after it
  is \<open>_resume\<close>, which reads the constants of the closure (\<open>now\<close>, the user,
  \<open>prevClockInTime\<close>, \<open>hoursWorked\<close>) and the state as it is by then.
\<close>

definition handleClockIn_begin :: "instant \<Rightarrow> AppState \<Rightarrow> (string \<times> AppState) option" where
  "handleClockIn_begin now s =
     (case currentUser s of
        None \<Rightarrow> None
      | Some user \<Rightarrow>
          if isButtonDisabled s \<or> user = [] then None
          else Some (user,
            s\<lparr>isButtonDisabled := True,
              clockState := \<lparr>isClockedIn = True, clockInTime = Some now\<rparr>,
              showConfirmation := Some (ClockedInAt now)\<rparr>))"

definition handleClockIn_resume ::
  "string \<Rightarrow> instant \<Rightarrow> ClockResponse \<Rightarrow> AppState \<Rightarrow> AppState" where
  "handleClockIn_resume user now response s =
     (let s1 =
        (if \<not> success response then
           s\<lparr>clockState := \<lparr>isClockedIn = False, clockInTime = None\<rparr>,
             showConfirmation := None,
             showError := Some (orElse (error response) ''Failed to clock in''),
             timers := timers s @ [HideError]\<rparr>
         else
           (let newEntry =
              \<lparr>shiftId = orElse (shift_id response) (dateText (formatDate now) @ ''_'' @ user),
               date = formatDate now, clockIn = now, clockOut = None, hoursWorked = None\<rparr>
            in s\<lparr>timeEntries :=
                    newEntry # filter (\<lambda>e. shiftId e \<noteq> shiftId newEntry) (timeEntries s),
                 timers := timers s @ [HideConfirmation]\<rparr>))
      in s1\<lparr>timers := timers s1 @ [EnableButton]\<rparr>)"

definition handleClockIn :: "instant \<Rightarrow> ClockResponse \<Rightarrow> AppState \<Rightarrow> AppState" where
  "handleClockIn now response s =
     (case handleClockIn_begin now s of
        None \<Rightarrow> s
      | Some (user, s') \<Rightarrow> handleClockIn_resume user now response s')"

text \<open>\<^verbatim>\<open>Array.prototype.findIndex\<close>; \<open>None\<close> is its \<^verbatim>\<open>-1\<close>.\<close>

fun findIndex :: "('a \<Rightarrow> bool) \<Rightarrow> 'a list \<Rightarrow> nat option" where
  "findIndex P [] = None"
| "findIndex P (x # xs) = (if P x then Some 0 else map_option Suc (findIndex P xs))"

text \<open>
  The updater given to \<^verbatim>\<open>setTimeEntries\<close> on a successful clock-out: the first entry with
  \<^verbatim>\<open>entry.date === formatDate(now) && entry.clockOut === null\<close> gets its clock-out time and
  hours; with no such entry the copy is returned as it is.
\<close>

definition isOpenToday :: "instant \<Rightarrow> TimeEntry \<Rightarrow> bool" where
  "isOpenToday now entry = (date entry = formatDate now \<and> clockOut entry = None)"

definition updateTodayEntry :: "instant \<Rightarrow> rat \<Rightarrow> TimeEntry list \<Rightarrow> TimeEntry list" where
  "updateTodayEntry now actualHours prev =
     (case findIndex (isOpenToday now) prev of
        None \<Rightarrow> prev
      | Some todayIndex \<Rightarrow>
          prev[todayIndex :=
            (prev ! todayIndex)\<lparr>clockOut := Some now, hoursWorked := Some actualHours\<rparr>])"

text \<open>What the clock-out handler keeps in its closure across the \<^verbatim>\<open>await\<close>.\<close>

record ClockOutClosure =
  outUser :: string
  outNow :: instant
  prevClockInTime :: "instant option"
  optimisticHours :: rat

definition handleClockOut_begin :: "instant \<Rightarrow> AppState \<Rightarrow> (ClockOutClosure \<times> AppState) option" where
  "handleClockOut_begin now s =
     (case currentUser s of
        None \<Rightarrow> None
      | Some user \<Rightarrow>
          if isButtonDisabled s \<or> user = [] then None
          else
            (let prev = clockInTime (clockState s);
                 hours = (case prev of Some t \<Rightarrow> calculateHoursWorked t now | None \<Rightarrow> 0)
             in Some (\<lparr>outUser = user, outNow = now, prevClockInTime = prev,
                        optimisticHours = hours\<rparr>,
                  s\<lparr>isButtonDisabled := True,
                    clockState := \<lparr>isClockedIn = False, clockInTime = None\<rparr>,
                    showConfirmation := Some (ClockedOutWorked hours)\<rparr>)))"

text \<open>\<^verbatim>\<open>response.hours_worked ?? hoursWorked\<close>.\<close>

definition actualHoursOf :: "ClockResponse \<Rightarrow> rat \<Rightarrow> rat" where
  "actualHoursOf response hours = (case hours_worked response of Some h \<Rightarrow> h | None \<Rightarrow> hours)"

definition handleClockOut_resume :: "ClockOutClosure \<Rightarrow> ClockResponse \<Rightarrow> AppState \<Rightarrow> AppState" where
  "handleClockOut_resume c response s =
     (let s1 =
        (if \<not> success response then
           s\<lparr>clockState := \<lparr>isClockedIn = True, clockInTime = prevClockInTime c\<rparr>,
             showConfirmation := None,
             showError := Some (orElse (error response) ''Failed to clock out''),
             timers := timers s @ [HideError]\<rparr>
         else
           (let actualHours = actualHoursOf response (optimisticHours c)
            in s\<lparr>timeEntries := updateTodayEntry (outNow c) actualHours (timeEntries s),
                 weekTotalHours := weekTotalHours s + actualHours,
                 timers := timers s @ [HideConfirmation]\<rparr>))
      in s1\<lparr>timers := timers s1 @ [EnableButton]\<rparr>)"

definition handleClockOut :: "instant \<Rightarrow> ClockResponse \<Rightarrow> AppState \<Rightarrow> AppState" where
  "handleClockOut now response s =
     (case handleClockOut_begin now s of
        None \<Rightarrow> s
      | Some (c, s') \<Rightarrow> handleClockOut_resume c response s')"

section \<open>The mileage handler\<close>

text \<open>
  \<^verbatim>\<open>handleMileageSubmit\<close>. The form gives the date, the number \<^verbatim>\<open>parseFloat(mileageMiles)\<close>
  (\<open>None\<close> is \<^verbatim>\<open>NaN\<close>) and the description; \<open>now\<close> is the \<^verbatim>\<open>Date.now()\<close> of the fallback
  identifier.
\<close>

record MileageForm =
  mileageDate :: isodate
  mileageMiles :: "rat option"
  mileageDescription :: string

definition handleMileageSubmit_begin :: "AppState \<Rightarrow> (string \<times> AppState) option" where
  "handleMileageSubmit_begin s =
     (case currentUser s of
        None \<Rightarrow> None
      | Some user \<Rightarrow>
          if user = [] \<or> isSubmittingMileage s then None
          else Some (user, s\<lparr>isSubmittingMileage := True\<rparr>))"

definition handleMileageSubmit_resume ::
  "MileageForm \<Rightarrow> instant \<Rightarrow> MileageResponse \<Rightarrow> AppState \<Rightarrow> AppState" where
  "handleMileageSubmit_resume form now response s =
     (let s1 =
        (if success response then
           (let newEntry =
              \<lparr>entryId = orElse (entry_id response) (''mileage_'' @ decimalInt now),
               mdate = mileageDate form, miles = mileageMiles form,
               description = mileageDescription form\<rparr>
            in s\<lparr>mileageEntries := newEntry # mileageEntries s,
                 showConfirmation := Some MileageSaved,
                 timers := timers s @ [HideConfirmation]\<rparr>)
         else
           s\<lparr>showError := Some (orElse (error response) ''Failed to save mileage''),
             timers := timers s @ [HideError]\<rparr>)
      in s1\<lparr>isSubmittingMileage := False\<rparr>)"


section \<open>The component as a transition system\<close>

text \<open>
  The events that write the state, in any order: a user is picked or dropped; the status
  and history requests of \<^verbatim>\<open>loadUserData\<close> (and \<^verbatim>\<open>refreshHistory\<close>) return; the clock button is
  tapped (\<^verbatim>\<open>onClick={clockState.isClockedIn ? handleClockOut : handleClockIn}\<close>); a clock
  call in flight returns; the mileage form is submitted; a mileage call returns; a scheduled
  timer runs. Calls in flight wait in the order they were made, each with the closure of
  the handler that made it.
\<close>

datatype clockCall = ClockInCall string instant | ClockOutCall ClockOutClosure

record System =
  app :: AppState
  clockCalls :: "clockCall list"
  mileageCalls :: "MileageForm list"

datatype event =
    SelectUser string
  | SwitchUser
  | StatusReturns StatusResponse
  | HistoryReturns HistoryResponse
  | TapClockButton instant
  | ClockCallReturns ClockResponse
  | SubmitMileageForm MileageForm
  | MileageCallReturns instant MileageResponse
  | TimerRuns timer

definition initialSystem :: System where
  "initialSystem = \<lparr>app = initialState, clockCalls = [], mileageCalls = []\<rparr>"

definition runTimer :: "timer \<Rightarrow> AppState \<Rightarrow> AppState" where
  "runTimer t s =
     (if t \<in> set (timers s) then
        (let s' = s\<lparr>timers := remove1 t (timers s)\<rparr>
         in case t of
              HideConfirmation \<Rightarrow> s'\<lparr>showConfirmation := None\<rparr>
            | HideError \<Rightarrow> s'\<lparr>showError := None\<rparr>
            | EnableButton \<Rightarrow> s'\<lparr>isButtonDisabled := False\<rparr>)
      else s)"

definition tapClockButton :: "instant \<Rightarrow> System \<Rightarrow> System" where
  "tapClockButton now \<sigma> =
     (if isClockedIn (clockState (app \<sigma>)) then
        (case handleClockOut_begin now (app \<sigma>) of
           None \<Rightarrow> \<sigma>
         | Some (c, s') \<Rightarrow> \<sigma>\<lparr>app := s', clockCalls := clockCalls \<sigma> @ [ClockOutCall c]\<rparr>)
      else
        (case handleClockIn_begin now (app \<sigma>) of
           None \<Rightarrow> \<sigma>
         | Some (user, s') \<Rightarrow>
             \<sigma>\<lparr>app := s', clockCalls := clockCalls \<sigma> @ [ClockInCall user now]\<rparr>))"

definition clockCallReturns :: "ClockResponse \<Rightarrow> System \<Rightarrow> System" where
  "clockCallReturns response \<sigma> =
     (case clockCalls \<sigma> of
        [] \<Rightarrow> \<sigma>
      | ClockInCall user now # rest \<Rightarrow>
          \<sigma>\<lparr>app := handleClockIn_resume user now response (app \<sigma>), clockCalls := rest\<rparr>
      | ClockOutCall c # rest \<Rightarrow>
          \<sigma>\<lparr>app := handleClockOut_resume c response (app \<sigma>), clockCalls := rest\<rparr>)"

fun step :: "event \<Rightarrow> System \<Rightarrow> System" where
  "step (SelectUser name) \<sigma> = \<sigma>\<lparr>app := selectUser name (app \<sigma>)\<rparr>"
| "step SwitchUser \<sigma> = \<sigma>\<lparr>app := switchUser (app \<sigma>)\<rparr>"
| "step (StatusReturns status) \<sigma> = \<sigma>\<lparr>app := applyStatus status (app \<sigma>)\<rparr>"
| "step (HistoryReturns history) \<sigma> = \<sigma>\<lparr>app := applyHistory history (app \<sigma>)\<rparr>"
| "step (TapClockButton now) \<sigma> = tapClockButton now \<sigma>"
| "step (ClockCallReturns response) \<sigma> = clockCallReturns response \<sigma>"
| "step (SubmitMileageForm form) \<sigma> =
     (case handleMileageSubmit_begin (app \<sigma>) of
        None \<Rightarrow> \<sigma>
      | Some (user, s') \<Rightarrow> \<sigma>\<lparr>app := s', mileageCalls := mileageCalls \<sigma> @ [form]\<rparr>)"
| "step (MileageCallReturns now response) \<sigma> =
     (case mileageCalls \<sigma> of
        [] \<Rightarrow> \<sigma>
      | form # rest \<Rightarrow>
          \<sigma>\<lparr>app := handleMileageSubmit_resume form now response (app \<sigma>),
            mileageCalls := rest\<rparr>)"
| "step (TimerRuns t) \<sigma> = \<sigma>\<lparr>app := runTimer t (app \<sigma>)\<rparr>"

fun run :: "event list \<Rightarrow> System \<Rightarrow> System" where
  "run [] \<sigma> = \<sigma>"
| "run (e # es) \<sigma> = run es (step e \<sigma>)"

text \<open>
  The invariant that the transitions keep: the clock state is well formed, and every
  clock-out call in flight has captured a clock-in time.
\<close>

definition callCaptured :: "clockCall \<Rightarrow> bool" where
  "callCaptured c = (case c of ClockInCall user now \<Rightarrow> True
                     | ClockOutCall k \<Rightarrow> prevClockInTime k \<noteq> None)"

definition System_inv :: "System \<Rightarrow> bool" where
  "System_inv \<sigma> = (ClockState_inv (clockState (app \<sigma>)) \<and> list_all callCaptured (clockCalls \<sigma>))"

text \<open>
  The stored week total is written by \<^verbatim>\<open>setWeekTotalHours\<close> in three places: the history
  reply, \<^verbatim>\<open>switchUser\<close>, and the success branch of the clock-out handler (the local
  mutation). \<open>leavesWeekTotal\<close> holds of the events that cannot reach one of them; a clock
  reply counts as a possible mutation whenever it reports success.
\<close>

fun leavesWeekTotal :: "event \<Rightarrow> bool" where
  "leavesWeekTotal (HistoryReturns history) = False"
| "leavesWeekTotal SwitchUser = False"
| "leavesWeekTotal (ClockCallReturns response) = (\<not> success response)"
| "leavesWeekTotal (SelectUser name) = True"
| "leavesWeekTotal (StatusReturns status) = True"
| "leavesWeekTotal (TapClockButton now) = True"
| "leavesWeekTotal (SubmitMileageForm form) = True"
| "leavesWeekTotal (MileageCallReturns now response) = True"
| "leavesWeekTotal (TimerRuns t) = True"

section \<open>Concrete scenarios\<close>

text \<open>
  States and replies used to evaluate the handlers. Bri works in Atlanta. On Monday
  2024-01-08 (day 19730) one shift runs from 14:00Z to 16:30Z; another starts at 23:00Z and
  ends at 01:00Z of day 19731, which is still Monday evening in Atlanta.
\<close>

definition briOut :: AppState where
  "briOut = initialState\<lparr>currentUser := Some ''Bri''\<rparr>"

definition dayEntry :: TimeEntry where
  "dayEntry =
     \<lparr>shiftId = ''2024-01-08_Bri'', date = 19730, clockIn = 1704722400000,
      clockOut = None, hoursWorked = None\<rparr>"

definition briInDay :: AppState where
  "briInDay =
     initialState\<lparr>currentUser := Some ''Bri'',
       clockState := \<lparr>isClockedIn = True, clockInTime = Some 1704722400000\<rparr>,
       timeEntries := [dayEntry]\<rparr>"



definition connectFailure :: ClockResponse where
  "connectFailure =
     \<lparr>success = False, error = Some connectFailed, shift_id = None, hours_worked = None\<rparr>"


definition serverHours :: ClockResponse where
  "serverHours =
     \<lparr>success = True, error = None, shift_id = None, hours_worked = Some (11 / 4)\<rparr>"

definition serverRefusal :: ClockResponse where
  "serverRefusal =
     \<lparr>success = False, error = Some ''Not clocked in'', shift_id = None, hours_worked = None\<rparr>"

definition siteVisit :: MileageForm where
  "siteVisit =
     \<lparr>mileageDate = 19730, mileageMiles = Some (25 / 2), mileageDescription = ''Site visit''\<rparr>"

text \<open>
  A history reply whose only entry is dated Sunday 2024-01-07 and whose week total is 0
  (a server that counts the week from Monday).
\<close>

definition sundayHistory :: HistoryResponse where
  "sundayHistory =
     \<lparr>time_entries =
        [\<lparr>te_shift_id = ''2024-01-07_Bri'', te_date = 19729, clock_in = 1704636000000,
          clock_out = Some 1704645000000, te_hours_worked = Some (5 / 2), edited = False\<rparr>],
      mileage_entries = [], week_total_hours = 0\<rparr>"





text \<open>
  A history reply with one entry of 2.5 hours dated Monday 2024-01-08 and a week total of
  6.5 (the server knows of more hours than it lists).
\<close>

definition mondayHistory :: HistoryResponse where
  "mondayHistory =
     \<lparr>time_entries =
        [\<lparr>te_shift_id = ''2024-01-08_Bri'', te_date = 19730, clock_in = 1704722400000,
          clock_out = Some 1704731400000, te_hours_worked = Some (5 / 2), edited = False\<rparr>],
      mileage_entries = [], week_total_hours = 13 / 2\<rparr>"

section \<open>The clock-state invariant\<close>

lemma handleClockIn_begin_inv:
  "handleClockIn_begin now s = Some (u, s') \<Longrightarrow> ClockState_inv (clockState s')"
  by (auto simp: handleClockIn_begin_def ClockState_inv_def split: option.splits if_splits)

lemma handleClockOut_begin_inv:
  "handleClockOut_begin now s = Some (c, s') \<Longrightarrow>
     ClockState_inv (clockState s') \<and> prevClockInTime c = clockInTime (clockState s)"
  by (auto simp: handleClockOut_begin_def ClockState_inv_def Let_def
           split: option.splits if_splits)

lemma handleClockIn_resume_inv:
  "ClockState_inv (clockState s) \<Longrightarrow>
     ClockState_inv (clockState (handleClockIn_resume u now r s))"
  by (auto simp: handleClockIn_resume_def ClockState_inv_def Let_def)

lemma handleClockOut_resume_inv:
  "ClockState_inv (clockState s) \<Longrightarrow> prevClockInTime c \<noteq> None \<Longrightarrow>
     ClockState_inv (clockState (handleClockOut_resume c r s))"
  by (auto simp: handleClockOut_resume_def ClockState_inv_def Let_def)

lemma runTimer_clockState: "clockState (runTimer t s) = clockState s"
  by (cases t) (simp_all add: runTimer_def Let_def)

lemma applyStatus_inv: "ClockState_inv (clockState (applyStatus st s))"
  by (auto simp: applyStatus_def ClockState_inv_def split: option.splits bool.splits)

lemma step_System_inv: "System_inv \<sigma> \<Longrightarrow> System_inv (step e \<sigma>)"
proof (cases e)
  case (TapClockButton now)
  assume inv: "System_inv \<sigma>"
  show ?thesis
  proof (cases "isClockedIn (clockState (app \<sigma>))")
    case True
    with inv have "clockInTime (clockState (app \<sigma>)) \<noteq> None"
      by (simp add: System_inv_def ClockState_inv_def)
    with inv True TapClockButton show ?thesis
      by (auto simp: System_inv_def tapClockButton_def callCaptured_def
               dest: handleClockOut_begin_inv split: option.splits)
  next
    case False
    with inv TapClockButton show ?thesis
      by (auto simp: System_inv_def tapClockButton_def callCaptured_def
               dest: handleClockIn_begin_inv split: option.splits)
  qed
next
  case (ClockCallReturns r)
  assume inv: "System_inv \<sigma>"
  with ClockCallReturns show ?thesis
    by (auto simp: System_inv_def clockCallReturns_def callCaptured_def
             intro: handleClockIn_resume_inv handleClockOut_resume_inv
             split: list.splits clockCall.splits)
next
  case (SubmitMileageForm f)
  assume "System_inv \<sigma>"
  with SubmitMileageForm show ?thesis
    by (auto simp: System_inv_def handleMileageSubmit_begin_def split: option.splits if_splits)
next
  case (MileageCallReturns now r)
  assume "System_inv \<sigma>"
  with MileageCallReturns show ?thesis
    by (auto simp: System_inv_def handleMileageSubmit_resume_def Let_def split: list.splits)
next
  case (StatusReturns st)
  assume "System_inv \<sigma>"
  with StatusReturns show ?thesis
    by (simp add: System_inv_def applyStatus_inv)
qed (auto simp: System_inv_def selectUser_def switchUser_def applyHistory_def
      ClockState_inv_def runTimer_clockState)

lemma run_System_inv: "System_inv \<sigma> \<Longrightarrow> System_inv (run es \<sigma>)"
  by (induction es arbitrary: \<sigma>) (simp_all add: step_System_inv)

lemma initialSystem_inv: "System_inv initialSystem"
  by (simp add: System_inv_def initialSystem_def initialState_def ClockState_inv_def)

text \<open>
  C1. In the clock state \<open>clockInTime\<close> is non-null if and only if \<open>isClockedIn\<close> is true,
  and every operation keeps it so: after any sequence of events from the initial state
  (the status reply of \<^verbatim>\<open>loadUserData\<close>, the optimistic writes of clock-in and clock-out and
  their rollbacks, in any interleaving with the other events), and after one more event of
  any kind, the invariant holds. The clock-out handler has no guard of its own on
  \<open>isClockedIn\<close>; it is the button's \<^verbatim>\<open>onClick\<close> that calls it only when clocked in, which is
  how \<open>tapClockButton\<close> calls it.
\<close>

theorem clock_state_invariant:
  "ClockState_inv (clockState (app (run es initialSystem)))
   \<and> ClockState_inv (clockState (app (step e (run es initialSystem))))"
proof -
  have "System_inv (run es initialSystem)"
    by (rule run_System_inv [OF initialSystem_inv])
  moreover from this have "System_inv (step e (run es initialSystem))"
    by (rule step_System_inv)
  ultimately show ?thesis
    by (simp add: System_inv_def)
qed

section \<open>Hours worked\<close>

text \<open>
  C4. For instants \<open>a < b\<close> the hours worked are \<open>round\<close> of four times the hours between
  them, divided by four (\<open>round\<close> is the nearest integer); the result is a multiple of a
  quarter, is not negative, and is within an eighth of an hour of the exact duration.
\<close>

theorem calculateHoursWorked_quarter_hours:
  assumes "a < b"
  shows "calculateHoursWorked a b = of_int (round (of_int (b - a) / 3600000 * 4 :: rat)) / 4
    \<and> (\<exists>k::int. calculateHoursWorked a b = of_int k * (1 / 4))
    \<and> 0 \<le> calculateHoursWorked a b
    \<and> \<bar>calculateHoursWorked a b - of_int (b - a) / 3600000\<bar> \<le> 1 / 8"
proof -
  define x :: rat where "x = of_int (b - a) / 3600000 * 4"
  have r: "calculateHoursWorked a b = of_int (round x) / 4"
    by (simp add: calculateHoursWorked_def Math_round_def ms_per_hour_def round_def x_def Let_def)
  have "0 \<le> x"
    using assms by (simp add: x_def)
  then have "0 \<le> round x"
    using round_mono [of 0 x] by simp
  then have nonneg: "0 \<le> calculateHoursWorked a b"
    by (simp add: r)
  have "\<bar>of_int (round x) - x\<bar> \<le> 1 / 2"
    by (rule of_int_round_abs_le)
  then have close: "\<bar>calculateHoursWorked a b - of_int (b - a) / 3600000\<bar> \<le> 1 / 8"
    unfolding r x_def by (simp add: abs_le_iff field_simps)
  show ?thesis
    using r nonneg close unfolding x_def by (auto intro: exI [of _ "round x"] simp: x_def)
qed

theorem calculateHoursWorked_quarter_hours_witness:
  "(0::int) < 4050000 \<and> calculateHoursWorked 0 4050000 = 5 / 4"
  using calculateHoursWorked_quarter_hours [of 0 4050000]
  by (simp add: calculateHoursWorked_def Math_round_def ms_per_hour_def)

section \<open>The week total\<close>

text \<open>
  The start of the week is a local midnight, the entry's date is a UTC midnight. East of
  Greenwich (and at it) the filter keeps exactly the days from the local Sunday on; west of
  it, it drops that Sunday.
\<close>

lemma inWeekFilter_east:
  assumes "0 \<le> tz" "tz < 1440"
  shows "inWeekFilter tz now entry
     = (localDay tz now - getDay tz now \<le> date entry \<and> hoursWorked entry \<noteq> None)"
proof -
  define S where "S = localDay tz now - getDay tz now"
  have "(S * 86400000 - tz * 60000 \<le> date entry * 86400000) = (S \<le> date entry)"
    using assms by linarith
  then show ?thesis
    by (simp add: inWeekFilter_def startOfWeek_def dateTime_def ms_per_day_def S_def)
qed

lemma inWeekFilter_west:
  assumes "tz < 0" "- 1440 \<le> tz"
  shows "inWeekFilter tz now entry
     = (localDay tz now - getDay tz now < date entry \<and> hoursWorked entry \<noteq> None)"
proof -
  define S where "S = localDay tz now - getDay tz now"
  have "(S * 86400000 - tz * 60000 \<le> date entry * 86400000) = (S < date entry)"
    using assms by linarith
  then show ?thesis
    by (simp add: inWeekFilter_def startOfWeek_def dateTime_def ms_per_day_def S_def)
qed

text \<open>
  C3. \<^verbatim>\<open>getWeekTotal\<close> should add the hours of every entry dated on or after the most recent
  Sunday, that Sunday included. Evaluated in Atlanta's zone (UTC-5, \<open>tz = -300\<close>) on Monday
  2024-01-08 at noon local time, on one entry dated Sunday 2024-01-07 (day 19729) with 2.5
  hours: the week starts at 2024-01-07T05:00Z, the entry's date reads as 2024-01-07T00:00Z,
  and the total is 0.
\<close>

theorem getWeekTotal_drops_week_start_sunday:
  "getDay (- 300) (19730 * 86400000 + 17 * 3600000) = 1
   \<and> localDay (- 300) (19730 * 86400000 + 17 * 3600000) - 1 = 19729
   \<and> getWeekTotal (- 300) (19730 * 86400000 + 17 * 3600000)
        [\<lparr>shiftId = ''2024-01-07_Bri'', date = 19729, clockIn = 19729 * 86400000 + 50400000,
          clockOut = Some (19729 * 86400000 + 59400000), hoursWorked = Some (5 / 2)\<rparr>] = 0"
  by (simp add: getWeekTotal_def inWeekFilter_def startOfWeek_def getDay_def localDay_def
        dateTime_def ms_per_day_def)

section \<open>Clock-in and clock-out against the remote call\<close>











lemma dayShift_hours: "calculateHoursWorked 1704722400000 1704731400000 = 5 / 2"
proof -
  have "\<lfloor>21 / 2 :: rat\<rfloor> = 10"
    by linarith
  then show ?thesis
    by (simp add: calculateHoursWorked_def Math_round_def ms_per_hour_def)
qed


lemma briOut_begin:
  "handleClockIn_begin 1704754800000 briOut =
     Some (''Bri'',
       briOut\<lparr>isButtonDisabled := True,
         clockState := \<lparr>isClockedIn = True, clockInTime = Some 1704754800000\<rparr>,
         showConfirmation := Some (ClockedInAt 1704754800000)\<rparr>)"
  by (simp add: handleClockIn_begin_def briOut_def initialState_def)

lemma briInDay_begin:
  "handleClockOut_begin 1704731400000 briInDay =
     Some (\<lparr>outUser = ''Bri'', outNow = 1704731400000, prevClockInTime = Some 1704722400000,
             optimisticHours = 5 / 2\<rparr>,
       briInDay\<lparr>isButtonDisabled := True,
         clockState := \<lparr>isClockedIn = False, clockInTime = None\<rparr>,
         showConfirmation := Some (ClockedOutWorked (5 / 2))\<rparr>)"
  by (simp add: handleClockOut_begin_def briInDay_def initialState_def dayShift_hours Let_def)



text \<open>
  C5. When the guard lets a clock-in through and the remote call does not succeed, the
  clock state after the handler is \<open>{isClockedIn: false, clockInTime: null}\<close> and the list of
  time entries is the one from before the call. The same holds for the part of the handler
  that runs on the reply, from whatever state \<open>s2\<close> the reply finds.
\<close>

theorem clockIn_failure_rolls_back:
  assumes "handleClockIn_begin now s = Some (user, s1)" and "\<not> success response"
  shows "clockState (handleClockIn now response s) = \<lparr>isClockedIn = False, clockInTime = None\<rparr>
    \<and> timeEntries (handleClockIn now response s) = timeEntries s
    \<and> clockState (handleClockIn_resume user now response s2)
        = \<lparr>isClockedIn = False, clockInTime = None\<rparr>
    \<and> timeEntries (handleClockIn_resume user now response s2) = timeEntries s2"
  using assms
  by (auto simp: handleClockIn_def handleClockIn_begin_def handleClockIn_resume_def Let_def
      split: option.splits if_splits)

theorem clockIn_failure_rolls_back_witness:
  "handleClockIn_begin 1704754800000 briOut \<noteq> None \<and> \<not> success connectFailure
   \<and> clockState (handleClockIn 1704754800000 connectFailure briOut)
       = \<lparr>isClockedIn = False, clockInTime = None\<rparr>
   \<and> timeEntries (handleClockIn 1704754800000 connectFailure briOut) = timeEntries briOut"
proof -
  have f: "\<not> success connectFailure"
    by (simp add: connectFailure_def)
  from clockIn_failure_rolls_back [OF briOut_begin f] briOut_begin f show ?thesis
    by simp
qed

text \<open>
  C6. When the guard lets a clock-out through from a clocked-in state and the remote call
  does not succeed, the clock state after the handler is exactly the one before the call:
  \<open>isClockedIn\<close> true, with the \<open>clockInTime\<close> the handler captured before the call. The
  rollback on the reply writes that same value from whatever state \<open>s2\<close> the reply finds.
\<close>

theorem clockOut_failure_rolls_back:
  assumes "handleClockOut_begin now s = Some (c, s1)" and "\<not> success response"
    and "isClockedIn (clockState s)"
  shows "clockState (handleClockOut now response s) = clockState s
    \<and> clockState (handleClockOut now response s)
        = \<lparr>isClockedIn = True, clockInTime = clockInTime (clockState s)\<rparr>
    \<and> prevClockInTime c = clockInTime (clockState s)
    \<and> clockState (handleClockOut_resume c response s2) = clockState s"
  using assms
  by (auto simp: handleClockOut_def handleClockOut_begin_def handleClockOut_resume_def Let_def
      split: option.splits if_splits)

theorem clockOut_failure_rolls_back_witness:
  "handleClockOut_begin 1704731400000 briInDay \<noteq> None \<and> \<not> success connectFailure
   \<and> isClockedIn (clockState briInDay)
   \<and> clockState (handleClockOut 1704731400000 connectFailure briInDay)
       = \<lparr>isClockedIn = True, clockInTime = Some 1704722400000\<rparr>"
proof -
  have f: "\<not> success connectFailure"
    by (simp add: connectFailure_def)
  have i: "isClockedIn (clockState briInDay)"
    by (simp add: briInDay_def)
  from clockOut_failure_rolls_back [OF briInDay_begin f i] briInDay_begin f i show ?thesis
    by (simp add: briInDay_def)
qed





section \<open>Mileage\<close>



section \<open>The week total shown\<close>

lemma step_leavesWeekTotal:
  assumes "leavesWeekTotal e"
  shows "weekTotalHours (app (step e \<sigma>)) = weekTotalHours (app \<sigma>)"
proof (cases e)
  case (TapClockButton now)
  then show ?thesis
    by (auto simp: tapClockButton_def handleClockOut_begin_def handleClockIn_begin_def Let_def
          split: option.splits if_splits)
next
  case (ClockCallReturns response)
  with assms have "\<not> success response"
    by simp
  with ClockCallReturns show ?thesis
    by (auto simp: clockCallReturns_def handleClockIn_resume_def handleClockOut_resume_def
          Let_def split: list.splits clockCall.splits)
next
  case (SubmitMileageForm form)
  then show ?thesis
    by (auto simp: handleMileageSubmit_begin_def split: option.splits if_splits)
next
  case (MileageCallReturns now response)
  then show ?thesis
    by (auto simp: handleMileageSubmit_resume_def Let_def split: list.splits)
next
  case (TimerRuns t)
  then show ?thesis
    by (cases t) (simp_all add: runTimer_def Let_def)
next
  case (StatusReturns status)
  then show ?thesis
    by (auto simp: applyStatus_def split: option.splits bool.splits)
next
  case (SelectUser name)
  then show ?thesis
    by (simp add: selectUser_def)
next
  case SwitchUser
  with assms show ?thesis
    by simp
next
  case (HistoryReturns history)
  with assms show ?thesis
    by simp
qed

lemma run_leavesWeekTotal:
  "list_all leavesWeekTotal es \<Longrightarrow>
     weekTotalHours (app (run es \<sigma>)) = weekTotalHours (app \<sigma>)"
  by (induction es arbitrary: \<sigma>) (simp_all add: step_leavesWeekTotal)

text \<open>
  C2, as first stated: whenever the last history load gave a week total and the entries
  give one too, the total shown is the server's. It is not so when the server's total is 0:
  loaded in UTC on Monday 2024-01-08 17:00Z, the reply \<open>sundayHistory\<close> (week total 0, one
  entry of 2.5 hours dated Sunday 2024-01-07) shows 2.5.
\<close>

theorem weekTotal_server_zero_counterexample:
  "weekTotal 0 1704733200000 (applyHistory sundayHistory briOut) = 5 / 2
   \<and> week_total_hours sundayHistory = 0"
  by (simp add: weekTotal_def applyHistory_def sundayHistory_def toLocalTimeEntry_def
        getWeekTotal_def inWeekFilter_def startOfWeek_def getDay_def localDay_def
        dateTime_def ms_per_day_def hoursOrZero_def)

text \<open>
  C2, amended. When the week total of the last history load is not 0, the week total shown
  is that server value, whatever the entries add up to, and stays so through every later
  event until the next local mutation (a clock call that returns success), user switch or
  history load. When the week total of the history load is 0, the total shown after the
  load is \<^verbatim>\<open>getWeekTotal\<close> of the entries just loaded.
\<close>

theorem weekTotal_server_precedence:
  "(week_total_hours history \<noteq> 0 \<and> list_all leavesWeekTotal es \<longrightarrow>
      weekTotal tz now (app (run es (step (HistoryReturns history) \<sigma>)))
        = week_total_hours history)
   \<and> (week_total_hours history = 0 \<longrightarrow>
      weekTotal tz now (app (step (HistoryReturns history) \<sigma>))
        = getWeekTotal tz now (map toLocalTimeEntry (time_entries history)))"
proof -
  have stored: "weekTotalHours (app (step (HistoryReturns history) \<sigma>)) = week_total_hours history"
    by (simp add: applyHistory_def)
  have "list_all leavesWeekTotal es \<Longrightarrow>
      weekTotalHours (app (run es (step (HistoryReturns history) \<sigma>))) = week_total_hours history"
    using run_leavesWeekTotal [of es "step (HistoryReturns history) \<sigma>"] stored by simp
  then have first: "week_total_hours history \<noteq> 0 \<and> list_all leavesWeekTotal es \<longrightarrow>
      weekTotal tz now (app (run es (step (HistoryReturns history) \<sigma>)))
        = week_total_hours history"
    by (simp add: weekTotal_def)
  have second: "week_total_hours history = 0 \<longrightarrow>
      weekTotal tz now (app (step (HistoryReturns history) \<sigma>))
        = getWeekTotal tz now (map toLocalTimeEntry (time_entries history))"
    by (simp add: weekTotal_def applyHistory_def)
  from first second show ?thesis
    by blast
qed

theorem weekTotal_server_precedence_witness:
  "week_total_hours mondayHistory = 13 / 2
   \<and> getWeekTotal 0 1704733200000 (map toLocalTimeEntry (time_entries mondayHistory)) = 5 / 2
   \<and> weekTotal 0 1704733200000
        (app (run [TapClockButton 1704733200000, TimerRuns HideConfirmation,
                   ClockCallReturns connectFailure, SubmitMileageForm siteVisit,
                   TimerRuns EnableButton]
               (step (HistoryReturns mondayHistory)
                  (step (SelectUser ''Bri'') initialSystem)))) = 13 / 2
   \<and> week_total_hours sundayHistory = 0
   \<and> weekTotal 0 1704733200000
        (app (step (HistoryReturns sundayHistory) (step (SelectUser ''Bri'') initialSystem)))
       = getWeekTotal 0 1704733200000 (map toLocalTimeEntry (time_entries sundayHistory))"
proof -
  have nz: "week_total_hours mondayHistory \<noteq> 0" "week_total_hours mondayHistory = 13 / 2"
    by (simp_all add: mondayHistory_def)
  have z: "week_total_hours sundayHistory = 0"
    by (simp add: sundayHistory_def)
  have quiet: "list_all leavesWeekTotal
      [TapClockButton 1704733200000, TimerRuns HideConfirmation,
       ClockCallReturns connectFailure, SubmitMileageForm siteVisit, TimerRuns EnableButton]"
    by (simp add: connectFailure_def)
  have loc: "getWeekTotal 0 1704733200000 (map toLocalTimeEntry (time_entries mondayHistory))
      = 5 / 2"
    by (simp add: mondayHistory_def toLocalTimeEntry_def getWeekTotal_def inWeekFilter_def
          startOfWeek_def getDay_def localDay_def dateTime_def ms_per_day_def hoursOrZero_def)
  note a = weekTotal_server_precedence
    [where history = mondayHistory and tz = 0 and now = 1704733200000
       and \<sigma> = "step (SelectUser ''Bri'') initialSystem"
       and es = "[TapClockButton 1704733200000, TimerRuns HideConfirmation,
                   ClockCallReturns connectFailure, SubmitMileageForm siteVisit,
                   TimerRuns EnableButton]", THEN conjunct1, rule_format, OF conjI, OF nz(1) quiet]
  note b = weekTotal_server_precedence
    [where history = sundayHistory and tz = 0 and now = 1704733200000
       and \<sigma> = "step (SelectUser ''Bri'') initialSystem" and es = "[]",
     THEN conjunct2, rule_format, OF z]
  from a b nz z loc show ?thesis
    by simp
qed

section \<open>The reply of a POST wrapper\<close>

text \<open>
  C8, as first stated: a wrapper gives a failure result only on a network failure or a
  status outside 2xx. It is not so: status 201 with a body that decodes to
  \<^verbatim>\<open>{success: false, error: "Not clocked in"}\<close> is returned as decoded, a failure result.
\<close>

theorem clockOut_call_decoded_failure_counterexample:
  "ok 201 \<and> \<not> success (clockOut_call ''Bri'' (Response 201 (Json serverRefusal)))
   \<and> error (clockOut_call ''Bri'' (Response 201 (Json serverRefusal))) = Some ''Not clocked in''"
  by (simp add: ok_def clockOut_call_def serverRefusal_def)

text \<open>
  C8, amended. For each of the four POST wrappers (clock in, clock out, mileage, edit
  entry), with \<open>today\<close> the time taken inside the wrapper:
  \<^item> a network failure, or a response whose status is outside 2xx, gives the failure object
    \<^verbatim>\<open>{success: false, error: "Failed to connect. Please try again."}\<close>;
  \<^item> a 2xx response whose body is the text \<^verbatim>\<open>Accepted\<close>, or is empty, or whose status is
    200, gives the wrapper's own success object without any decoding (with the built
    \<open>shift_id\<close> for clock in and the built \<open>entry_id\<close> for mileage);
  \<^item> any other 2xx response whose body decodes as JSON gives the decoded object as it is,
    every field kept, a \<open>success\<close> of false included;
  \<^item> any other 2xx response whose body does not decode gives \<^verbatim>\<open>{success: true}\<close>.
  So the result is a success exactly when the response has a 2xx status and its body is
  \<^verbatim>\<open>Accepted\<close>, empty, comes with status 200, does not decode, or decodes to an object
  whose \<open>success\<close> is true.
\<close>

theorem post_wrapper_result:
  fixes status :: nat
    and textC :: "ClockResponse body" and textM :: "MileageResponse body"
    and textE :: "ApiResult body"
  shows
  "clockIn_call techName today NetworkFailure =
      \<lparr>success = False, error = Some ''Failed to connect. Please try again.'',
       shift_id = None, hours_worked = None\<rparr>
   \<and> clockOut_call techName NetworkFailure =
      \<lparr>success = False, error = Some ''Failed to connect. Please try again.'',
       shift_id = None, hours_worked = None\<rparr>
   \<and> submitMileage techName today NetworkFailure =
      \<lparr>success = False, error = Some ''Failed to connect. Please try again.'',
       entry_id = None\<rparr>
   \<and> editEntry techName NetworkFailure =
      \<lparr>success = False, error = Some ''Failed to connect. Please try again.''\<rparr>
   \<and> (\<not> (200 \<le> status \<and> status \<le> 299) \<longrightarrow>
        clockIn_call techName today (Response status textC) =
          \<lparr>success = False, error = Some ''Failed to connect. Please try again.'',
           shift_id = None, hours_worked = None\<rparr>
        \<and> clockOut_call techName (Response status textC) =
          \<lparr>success = False, error = Some ''Failed to connect. Please try again.'',
           shift_id = None, hours_worked = None\<rparr>
        \<and> submitMileage techName today (Response status textM) =
          \<lparr>success = False, error = Some ''Failed to connect. Please try again.'',
           entry_id = None\<rparr>
        \<and> editEntry techName (Response status textE) =
          \<lparr>success = False, error = Some ''Failed to connect. Please try again.''\<rparr>)
   \<and> (200 \<le> status \<and> status \<le> 299 \<longrightarrow>
        (textC = Accepted \<or> textC = Empty \<or> status = 200 \<longrightarrow>
           clockIn_call techName today (Response status textC) =
             \<lparr>success = True, error = None,
              shift_id = Some (dateText (formatDate today) @ ''_'' @ techName),
              hours_worked = None\<rparr>
           \<and> clockOut_call techName (Response status textC) =
             \<lparr>success = True, error = None, shift_id = None, hours_worked = None\<rparr>)
        \<and> (textM = Accepted \<or> textM = Empty \<or> status = 200 \<longrightarrow>
           submitMileage techName today (Response status textM) =
             \<lparr>success = True, error = None,
              entry_id = Some (''mileage_'' @ decimalInt today)\<rparr>)
        \<and> (textE = Accepted \<or> textE = Empty \<or> status = 200 \<longrightarrow>
           editEntry techName (Response status textE) = \<lparr>success = True, error = None\<rparr>)
        \<and> (status \<noteq> 200 \<longrightarrow>
           clockIn_call techName today (Response status (Json parsedC)) = parsedC
           \<and> clockOut_call techName (Response status (Json parsedC)) = parsedC
           \<and> submitMileage techName today (Response status (Json parsedM)) = parsedM
           \<and> editEntry techName (Response status (Json parsedE)) = parsedE
           \<and> clockIn_call techName today (Response status NotJson) =
               \<lparr>success = True, error = None, shift_id = None, hours_worked = None\<rparr>
           \<and> clockOut_call techName (Response status NotJson) =
               \<lparr>success = True, error = None, shift_id = None, hours_worked = None\<rparr>
           \<and> submitMileage techName today (Response status NotJson) =
               \<lparr>success = True, error = None, entry_id = None\<rparr>
           \<and> editEntry techName (Response status NotJson) = \<lparr>success = True, error = None\<rparr>))
   \<and> (success (clockIn_call techName today rc) \<longleftrightarrow>
      (\<exists>status text. rc = Response status text \<and> 200 \<le> status \<and> status \<le> 299 \<and>
         (text = Accepted \<or> text = Empty \<or> status = 200 \<or> text = NotJson
          \<or> (\<exists>parsed. text = Json parsed \<and> success parsed))))
   \<and> (success (clockOut_call techName rc) \<longleftrightarrow>
      (\<exists>status text. rc = Response status text \<and> 200 \<le> status \<and> status \<le> 299 \<and>
         (text = Accepted \<or> text = Empty \<or> status = 200 \<or> text = NotJson
          \<or> (\<exists>parsed. text = Json parsed \<and> success parsed))))
   \<and> (success (submitMileage techName today rm) \<longleftrightarrow>
      (\<exists>status text. rm = Response status text \<and> 200 \<le> status \<and> status \<le> 299 \<and>
         (text = Accepted \<or> text = Empty \<or> status = 200 \<or> text = NotJson
          \<or> (\<exists>parsed. text = Json parsed \<and> success parsed))))
   \<and> (success (editEntry techName re) \<longleftrightarrow>
      (\<exists>status text. re = Response status text \<and> 200 \<le> status \<and> status \<le> 299 \<and>
         (text = Accepted \<or> text = Empty \<or> status = 200 \<or> text = NotJson
          \<or> (\<exists>parsed. text = Json parsed \<and> success parsed))))"
proof -
  have ci0: "success (clockIn_call techName today rc) \<longleftrightarrow>
      (\<exists>status text. rc = Response status text \<and> ok status \<and>
         (text = Accepted \<or> text = Empty \<or> status = 200 \<or> text = NotJson
          \<or> (\<exists>parsed. text = Json parsed \<and> success parsed)))"
    by (cases rc; simp add: clockIn_call_def split: body.splits)
  have co0: "success (clockOut_call techName rc) \<longleftrightarrow>
      (\<exists>status text. rc = Response status text \<and> ok status \<and>
         (text = Accepted \<or> text = Empty \<or> status = 200 \<or> text = NotJson
          \<or> (\<exists>parsed. text = Json parsed \<and> success parsed)))"
    by (cases rc; simp add: clockOut_call_def split: body.splits)
  have sm0: "success (submitMileage techName today rm) \<longleftrightarrow>
      (\<exists>status text. rm = Response status text \<and> ok status \<and>
         (text = Accepted \<or> text = Empty \<or> status = 200 \<or> text = NotJson
          \<or> (\<exists>parsed. text = Json parsed \<and> success parsed)))"
    by (cases rm; simp add: submitMileage_def split: body.splits)
  have ee0: "success (editEntry techName re) \<longleftrightarrow>
      (\<exists>status text. re = Response status text \<and> ok status \<and>
         (text = Accepted \<or> text = Empty \<or> status = 200 \<or> text = NotJson
          \<or> (\<exists>parsed. text = Json parsed \<and> success parsed)))"
    by (cases re; simp add: editEntry_def split: body.splits)
  note ci = ci0 [unfolded ok_def] and co = co0 [unfolded ok_def]
    and sm = sm0 [unfolded ok_def] and ee = ee0 [unfolded ok_def]
  show ?thesis
    apply (intro conjI impI)
    apply (simp_all only: ci co sm ee)
    apply (auto simp: clockIn_call_def clockOut_call_def submitMileage_def editEntry_def
             ok_def connectFailed_def)
    done
qed

theorem post_wrapper_result_witness:
  "clockOut_call ''Bri'' (Response 201 (Json serverHours)) = serverHours
   \<and> hours_worked (clockOut_call ''Bri'' (Response 201 (Json serverHours))) = Some (11 / 4)
   \<and> clockIn_call ''Bri'' 1704722400000 (Response 201 NotJson) =
       \<lparr>success = True, error = None, shift_id = None, hours_worked = None\<rparr>
   \<and> clockOut_call ''Bri'' (Response 500 Accepted) =
       \<lparr>success = False, error = Some ''Failed to connect. Please try again.'',
        shift_id = None, hours_worked = None\<rparr>
   \<and> editEntry ''Bri'' (Response 200 NotJson) = \<lparr>success = True, error = None\<rparr>
   \<and> submitMileage ''Bri'' 1704722400000 NetworkFailure =
       \<lparr>success = False, error = Some ''Failed to connect. Please try again.'',
        entry_id = None\<rparr>
   \<and> \<not> success (clockOut_call ''Bri'' (Response 201 (Json serverRefusal)))"
proof -
  note created = post_wrapper_result
    [where techName = "''Bri''" and today = 1704722400000 and status = 201
       and textC = NotJson and textM = NotJson and textE = NotJson
       and parsedC = serverHours
       and parsedM = "\<lparr>success = True, error = None, entry_id = None\<rparr>"
       and parsedE = "\<lparr>success = True, error = None\<rparr>"
       and rc = "Response 201 (Json serverRefusal)" and rm = NetworkFailure
       and re = NetworkFailure]
  note failed = post_wrapper_result
    [where techName = "''Bri''" and today = 1704722400000 and status = 500
       and textC = Accepted and textM = Accepted and textE = Accepted
       and parsedC = serverHours
       and parsedM = "\<lparr>success = True, error = None, entry_id = None\<rparr>"
       and parsedE = "\<lparr>success = True, error = None\<rparr>"
       and rc = NetworkFailure and rm = NetworkFailure and re = NetworkFailure]
  note plain = post_wrapper_result
    [where techName = "''Bri''" and today = 1704722400000 and status = 200
       and textC = NotJson and textM = NotJson and textE = NotJson
       and parsedC = serverHours
       and parsedM = "\<lparr>success = True, error = None, entry_id = None\<rparr>"
       and parsedE = "\<lparr>success = True, error = None\<rparr>"
       and rc = NetworkFailure and rm = NetworkFailure and re = NetworkFailure]
  have a: "clockOut_call ''Bri'' (Response 201 (Json serverHours)) = serverHours"
    "clockIn_call ''Bri'' 1704722400000 (Response 201 NotJson) =
       \<lparr>success = True, error = None, shift_id = None, hours_worked = None\<rparr>"
    "\<not> success (clockOut_call ''Bri'' (Response 201 (Json serverRefusal)))"
    using created by (simp_all add: serverRefusal_def)
  have b: "clockOut_call ''Bri'' (Response 500 Accepted) =
       \<lparr>success = False, error = Some ''Failed to connect. Please try again.'',
        shift_id = None, hours_worked = None\<rparr>"
    "submitMileage ''Bri'' 1704722400000 NetworkFailure =
       \<lparr>success = False, error = Some ''Failed to connect. Please try again.'',
        entry_id = None\<rparr>"
    using failed by simp_all
  have c: "editEntry ''Bri'' (Response 200 NotJson) = \<lparr>success = True, error = None\<rparr>"
    using plain by simp
  have d: "hours_worked serverHours = Some (11 / 4)"
    by (simp add: serverHours_def)
  from a b c d show ?thesis
    by simp
qed

end
